theory Spec2Isabelle
  imports Complex_Main "HOL-Library.Sublist"
begin

section \<open>Data model of the dashboard tables\<close>

text \<open>
  The application (\<^verbatim>\<open>app.py\<close>) loads two CSV sources through DuckDB into three pandas
  tables. A row of \<^verbatim>\<open>df_status\<close> has the columns \<^verbatim>\<open>ts\<close>, \<^verbatim>\<open>status\<close>, \<^verbatim>\<open>count\<close>; a row of
  \<^verbatim>\<open>df_auth\<close> has \<^verbatim>\<open>ts\<close>, \<^verbatim>\<open>auth_code\<close>, \<^verbatim>\<open>count\<close>; a row of \<^verbatim>\<open>organized_df\<close> has \<^verbatim>\<open>ts\<close>, six
  status sums and the nullable \<^verbatim>\<open>auth_00_count\<close>.

  Timestamps are DuckDB \<^verbatim>\<open>TIMESTAMP\<close> values, modelled as an integer number of
  microseconds. Counts are \<^verbatim>\<open>BIGINT\<close> values, held as integers; pandas adds them in 64-bit
  arithmetic (\<open>wrap64\<close> below). Cells that are SQL \<^verbatim>\<open>NULL\<close> are outside the model.
\<close>

record status_row =
  s_ts :: int
  s_status :: string
  s_count :: int

record auth_row =
  a_ts :: int
  a_auth_code :: string
  a_count :: int

record organized_row =
  o_ts :: int
  approved :: int
  denied :: int
  reversed :: int
  backend_reversed :: int
  failed :: int
  refunded :: int
  auth_00_count :: "int option"

section \<open>Loading through DuckDB (\<^verbatim>\<open>load_data\<close>)\<close>

text \<open>\<^verbatim>\<open>path_str.replace("\\", "/")\<close>: every backslash becomes a forward slash.\<close>

definition to_duckdb_path :: "string \<Rightarrow> string" where
  "to_duckdb_path path_str = map (\<lambda>c. if c = CHR 0x5C then CHR ''/'' else c) path_str"

text \<open>
  Each of the three statements of \<^verbatim>\<open>load_data\<close> reads its sources with the call
  \<^verbatim>\<open>read_csv_auto('<path>', header TRUE)\<close>. An argument of a function call in DuckDB's
  grammar is an expression, or a parameter name, one of \<^verbatim>\<open>=\<close>, \<^verbatim>\<open>:=\<close>, \<^verbatim>\<open>=>\<close>, and an
  expression. The second argument of the source is the two tokens \<^verbatim>\<open>header TRUE\<close> with
  nothing between them: it is neither, and the parser refuses the statement at \<^verbatim>\<open>TRUE\<close>
  before anything is read.
\<close>

datatype call_arg =
    Positional string
  | Named string string
  | Juxtaposed string string

fun arg_parses :: "call_arg \<Rightarrow> bool" where
  "arg_parses (Positional e) = True"
| "arg_parses (Named n e) = True"
| "arg_parses (Juxtaposed a b) = False"

definition read_csv_auto_args :: "string \<Rightarrow> call_arg list" where
  "read_csv_auto_args path = [Positional path, Juxtaposed ''header'' ''TRUE'']"

datatype error =
    ParserException
  | IOException
  | ConversionException
  | ZeroDivisionError
  | OverflowError

text \<open>
  \<^verbatim>\<open>con.execute(sql).df()\<close>: the statement is parsed first, and only a statement that parses
  is run. A statement is given by the argument lists of its \<^verbatim>\<open>read_csv_auto\<close> calls and by
  \<open>run\<close>, the result DuckDB computes for it when it runs.
\<close>

definition con_execute :: "call_arg list list \<Rightarrow> (error + 'df) \<Rightarrow> error + 'df" where
  "con_execute calls run =
     (if list_all (list_all arg_parses) calls then run else Inl ParserException)"

text \<open>
  A CSV source is its data rows of three text cells; the file system maps a path to its
  file. What DuckDB computes from the files when a statement runs (type detection, the
  casts to \<^verbatim>\<open>TIMESTAMP\<close> and \<^verbatim>\<open>BIGINT\<close>, the join and the grouping) is DuckDB's, not the
  application's: it is the parameter \<open>db\<close>, one function per statement.
\<close>

type_synonym csv = "(string \<times> string \<times> string) list"

type_synonym filesystem = "(string \<times> csv) list"

record duckdb =
  run_status :: "csv \<Rightarrow> error + status_row list"
  run_auth :: "csv \<Rightarrow> error + auth_row list"
  run_organized :: "csv \<Rightarrow> csv \<Rightarrow> error + organized_row list"

definition read_file :: "filesystem \<Rightarrow> string \<Rightarrow> error + csv" where
  "read_file fs path = (case map_of fs path of None \<Rightarrow> Inl IOException | Some f \<Rightarrow> Inr f)"

definition load_data ::
  "duckdb \<Rightarrow> filesystem \<Rightarrow> string \<Rightarrow> string
     \<Rightarrow> error + (status_row list \<times> auth_row list \<times> organized_row list)" where
  "load_data db fs transactions_csv auth_codes_csv =
     (let transactions_duck_path = to_duckdb_path transactions_csv;
          auth_duck_path = to_duckdb_path auth_codes_csv
      in case con_execute [read_csv_auto_args transactions_duck_path]
                (case read_file fs transactions_duck_path of
                   Inl e \<Rightarrow> Inl e
                 | Inr t \<Rightarrow> run_status db t) of
           Inl e \<Rightarrow> Inl e
         | Inr df_status \<Rightarrow>
             (case con_execute [read_csv_auto_args auth_duck_path]
                     (case read_file fs auth_duck_path of
                        Inl e \<Rightarrow> Inl e
                      | Inr a \<Rightarrow> run_auth db a) of
                Inl e \<Rightarrow> Inl e
              | Inr df_auth \<Rightarrow>
                  (case con_execute [read_csv_auto_args transactions_duck_path,
                                     read_csv_auto_args auth_duck_path]
                          (case read_file fs transactions_duck_path of
                             Inl e \<Rightarrow> Inl e
                           | Inr t \<Rightarrow>
                               (case read_file fs auth_duck_path of
                                  Inl e \<Rightarrow> Inl e
                                | Inr a \<Rightarrow> run_organized db t a)) of
                     Inl e \<Rightarrow> Inl e
                   | Inr organized_df \<Rightarrow> Inr (df_status, df_auth, organized_df))))"

section \<open>The time window\<close>

text \<open>
  \<^verbatim>\<open>Series.max()\<close> of an empty column is \<^verbatim>\<open>NaT\<close>; every comparison with \<^verbatim>\<open>NaT\<close> is false,
  and \<^verbatim>\<open>NaT - timedelta\<close> is \<^verbatim>\<open>NaT\<close>. Python's \<^verbatim>\<open>max(a, b)\<close> returns \<^verbatim>\<open>b\<close> only when
  \<^verbatim>\<open>b > a\<close>.
\<close>

datatype tsval = NaT | Ts int

fun series_max :: "int list \<Rightarrow> tsval" where
  "series_max [] = NaT"
| "series_max (x # xs) = Ts (fold max xs x)"

fun py_max :: "tsval \<Rightarrow> tsval \<Rightarrow> tsval" where
  "py_max (Ts a) (Ts b) = (if b > a then Ts b else Ts a)"
| "py_max a b = a"

fun minus_timedelta :: "tsval \<Rightarrow> int \<Rightarrow> tsval" where
  "minus_timedelta NaT d = NaT"
| "minus_timedelta (Ts t) d = Ts (t - d)"

fun ge_ts :: "int \<Rightarrow> tsval \<Rightarrow> bool" where
  "ge_ts t NaT = False"
| "ge_ts t (Ts s) = (t \<ge> s)"

text \<open>Durations in microseconds; \<open>None\<close> is Python's \<^verbatim>\<open>None\<close> (no lower bound).\<close>

definition start_ts :: "string \<Rightarrow> tsval \<Rightarrow> tsval option" where
  "start_ts window_choice max_ts =
     (if window_choice = ''15 minutes'' then Some (minus_timedelta max_ts (15 * 60 * 1000000))
      else if window_choice = ''1 hour'' then Some (minus_timedelta max_ts (60 * 60 * 1000000))
      else if window_choice = ''6 hours'' then Some (minus_timedelta max_ts (6 * 60 * 60 * 1000000))
      else None)"

definition apply_window ::
  "string \<Rightarrow> status_row list \<times> auth_row list \<times> organized_row list
     \<Rightarrow> status_row list \<times> auth_row list \<times> organized_row list" where
  "apply_window window_choice tables =
     (case tables of (df_status, df_auth, organized_df) \<Rightarrow>
        (let max_ts = py_max (series_max (map s_ts df_status)) (series_max (map a_ts df_auth))
         in case start_ts window_choice max_ts of
              None \<Rightarrow> (df_status, df_auth, organized_df)
            | Some b \<Rightarrow>
                (filter (\<lambda>r. ge_ts (s_ts r) b) df_status,
                 filter (\<lambda>r. ge_ts (a_ts r) b) df_auth,
                 filter (\<lambda>r. ge_ts (o_ts r) b) organized_df)))"

section \<open>KPIs\<close>

text \<open>
  \<^verbatim>\<open>Series.sum()\<close> of an \<^verbatim>\<open>int64\<close> column adds in 64-bit two's complement and wraps;
  \<^verbatim>\<open>int(...)\<close> turns the result into a Python integer.
\<close>

definition wrap64 :: "int \<Rightarrow> int" where
  "wrap64 n = (n + 2 ^ 63) mod 2 ^ 64 - 2 ^ 63"

definition total_tx :: "status_row list \<Rightarrow> int" where
  "total_tx df_status = wrap64 (sum_list (map s_count df_status))"

definition approved_total :: "status_row list \<Rightarrow> int" where
  "approved_total df_status =
     wrap64 (sum_list (map s_count (filter (\<lambda>r. s_status r = ''approved'') df_status)))"

definition a00_total :: "auth_row list \<Rightarrow> int" where
  "a00_total df_auth =
     wrap64 (sum_list (map a_count (filter (\<lambda>r. a_auth_code r = ''00'') df_auth)))"

text \<open>
  A Python float is an IEEE double: a finite value, an infinity or NaN (the two zeros are
  not told apart). The result of an operation on finite values is the exact result
  rounded by \<open>rnd\<close>, the rounding to the nearest double, and an infinity when the rounded
  result is beyond the largest double. \<open>rnd\<close> is a parameter of the model.
\<close>

datatype pyfloat = Finite real | PosInf | NegInf | NaN

definition max_float :: real where
  "max_float = (2 ^ 53 - 1) * 2 ^ 971"

definition to_float :: "(real \<Rightarrow> real) \<Rightarrow> real \<Rightarrow> pyfloat" where
  "to_float rnd x =
     (if rnd x > max_float then PosInf
      else if rnd x < - max_float then NegInf
      else Finite (rnd x))"

fun float_mul :: "(real \<Rightarrow> real) \<Rightarrow> pyfloat \<Rightarrow> pyfloat \<Rightarrow> pyfloat" where
  "float_mul rnd (Finite x) (Finite y) = to_float rnd (x * y)"
| "float_mul rnd NaN y = NaN"
| "float_mul rnd x NaN = NaN"
| "float_mul rnd PosInf (Finite y) = (if y = 0 then NaN else if y > 0 then PosInf else NegInf)"
| "float_mul rnd NegInf (Finite y) = (if y = 0 then NaN else if y > 0 then NegInf else PosInf)"
| "float_mul rnd (Finite x) PosInf = (if x = 0 then NaN else if x > 0 then PosInf else NegInf)"
| "float_mul rnd (Finite x) NegInf = (if x = 0 then NaN else if x > 0 then NegInf else PosInf)"
| "float_mul rnd PosInf PosInf = PosInf"
| "float_mul rnd PosInf NegInf = NegInf"
| "float_mul rnd NegInf PosInf = NegInf"
| "float_mul rnd NegInf NegInf = PosInf"

text \<open>
  Python's \<^verbatim>\<open>/\<close> on two integers raises \<^verbatim>\<open>ZeroDivisionError\<close> on a zero divisor and
  \<^verbatim>\<open>OverflowError\<close> when the quotient is too large for a float; otherwise it is the
  rounded quotient.
\<close>

definition py_truediv :: "(real \<Rightarrow> real) \<Rightarrow> int \<Rightarrow> int \<Rightarrow> error + pyfloat" where
  "py_truediv rnd a b =
     (if b = 0 then Inl ZeroDivisionError
      else (case to_float rnd (real_of_int a / real_of_int b) of
              Finite q \<Rightarrow> Inr (Finite q)
            | PosInf \<Rightarrow> Inl OverflowError
            | NegInf \<Rightarrow> Inl OverflowError
            | NaN \<Rightarrow> Inl OverflowError))"

text \<open>\<^verbatim>\<open>(approved_total / total_tx * 100.0) if total_tx else 0.0\<close>\<close>

definition approval_rate :: "(real \<Rightarrow> real) \<Rightarrow> int \<Rightarrow> int \<Rightarrow> error + pyfloat" where
  "approval_rate rnd approved_tot tot =
     (if tot \<noteq> 0
      then (case py_truediv rnd approved_tot tot of
              Inl e \<Rightarrow> Inl e
            | Inr q \<Rightarrow> Inr (float_mul rnd q (Finite 100)))
      else Inr (Finite 0))"

section \<open>One run of the script\<close>

record page =
  p_status :: "status_row list"
  p_auth :: "auth_row list"
  p_organized :: "organized_row list"
  p_total_tx :: int
  p_approved_total :: int
  p_a00_total :: int
  p_approval_rate :: pyfloat

datatype outcome = CsvNotFound | Raised error | NoData | Rendered page

definition os_path_exists :: "filesystem \<Rightarrow> string \<Rightarrow> bool" where
  "os_path_exists fs path = (map_of fs (to_duckdb_path path) \<noteq> None)"

text \<open>
  The file check, \<^verbatim>\<open>load_data\<close>, the guard on empty tables, the window and the KPIs, in the
  order of the script. An exception that leaves \<^verbatim>\<open>load_data\<close> ends the run: nothing in the
  script catches it.
\<close>

definition dashboard ::
  "duckdb \<Rightarrow> (real \<Rightarrow> real) \<Rightarrow> filesystem \<Rightarrow> string \<Rightarrow> string \<Rightarrow> string \<Rightarrow> outcome" where
  "dashboard db rnd fs transactions_csv auth_codes_csv window_choice =
     (if \<not> os_path_exists fs transactions_csv \<or> \<not> os_path_exists fs auth_codes_csv
      then CsvNotFound
      else case load_data db fs transactions_csv auth_codes_csv of
        Inl e \<Rightarrow> Raised e
      | Inr (df_status, df_auth, organized_df) \<Rightarrow>
          if df_status = [] \<or> df_auth = [] then NoData
          else (case apply_window window_choice (df_status, df_auth, organized_df) of
            (st, au, org) \<Rightarrow>
              (case approval_rate rnd (approved_total st) (total_tx st) of
                 Inl e \<Rightarrow> Raised e
               | Inr rate \<Rightarrow>
                   Rendered \<lparr> p_status = st, p_auth = au, p_organized = org,
                              p_total_tx = total_tx st,
                              p_approved_total = approved_total st,
                              p_a00_total = a00_total au,
                              p_approval_rate = rate \<rparr>)))"

section \<open>Lemmas about loading\<close>

lemma read_csv_auto_args_rejected: "\<not> list_all arg_parses (read_csv_auto_args path)"
  by (simp add: read_csv_auto_args_def)

lemma con_execute_read_csv_auto:
  "con_execute (read_csv_auto_args path # calls) run = Inl ParserException"
  by (simp add: con_execute_def read_csv_auto_args_rejected)

lemma load_data_raises: "load_data db fs transactions_csv auth_codes_csv = Inl ParserException"
  by (simp add: load_data_def Let_def con_execute_read_csv_auto)

lemma dashboard_raises:
  assumes "os_path_exists fs transactions_csv" and "os_path_exists fs auth_codes_csv"
  shows "dashboard db rnd fs transactions_csv auth_codes_csv window_choice
           = Raised ParserException"
  using assms by (simp add: dashboard_def load_data_raises)

section \<open>Lemmas about the KPIs\<close>

lemma wrap64_range: "- (2 ^ 63) \<le> wrap64 n \<and> wrap64 n < 2 ^ 63"
proof -
  have "0 \<le> (n + 2 ^ 63) mod (2 ^ 64 :: int)" and "(n + 2 ^ 63) mod (2 ^ 64 :: int) < 2 ^ 64"
    by simp_all
  moreover have "(2 :: int) ^ 64 = 2 ^ 63 + 2 ^ 63"
    by simp
  ultimately show ?thesis
    unfolding wrap64_def by linarith
qed

lemma max_float_ge: "2 ^ 63 \<le> max_float"
  by (simp add: max_float_def)

lemma quotient_bound:
  assumes "- (2 ^ 63) \<le> a" and "a < 2 ^ 63" and "t \<noteq> 0"
  shows "\<bar>real_of_int a / real_of_int t\<bar> \<le> max_float"
proof -
  have t: "1 \<le> \<bar>real_of_int t\<bar>"
    using assms(3) by (simp add: abs_if)
  have a: "\<bar>real_of_int a\<bar> \<le> 2 ^ 63"
    using assms(1,2) by (simp add: abs_if)
  have "\<bar>real_of_int a / real_of_int t\<bar> = \<bar>real_of_int a\<bar> / \<bar>real_of_int t\<bar>"
    by simp
  also have "\<dots> \<le> \<bar>real_of_int a\<bar> / 1"
    using t by (intro divide_left_mono) simp_all
  also have "\<dots> \<le> 2 ^ 63"
    using a by simp
  finally show ?thesis
    using max_float_ge by linarith
qed

lemma to_float_in_range:
  assumes "\<bar>rnd x\<bar> \<le> max_float"
  shows "to_float rnd x = Finite (rnd x)"
  using assms by (simp add: to_float_def abs_le_iff)

lemma to_float_not_NaN: "to_float rnd x \<noteq> NaN"
  by (simp add: to_float_def)

section \<open>Lemmas about the window\<close>

lemma fold_max_eq_Max: "fold max xs (x::int) = Max (insert x (set xs))"
proof (induction xs arbitrary: x)
  case Nil
  then show ?case by simp
next
  case (Cons y ys)
  have "fold max (y # ys) x = Max (insert (max y x) (set ys))"
    using Cons.IH by simp
  also have "\<dots> = Max (insert x (set (y # ys)))"
    by (cases "set ys = {}") (auto simp: max.commute max.left_commute max.assoc)
  finally show ?case .
qed

lemma series_max_nonempty: "xs \<noteq> [] \<Longrightarrow> series_max xs = Ts (Max (set xs))"
  by (cases xs) (simp_all add: fold_max_eq_Max)

lemma py_max_Ts: "py_max (Ts a) (Ts b) = Ts (max a b)"
  by (simp add: max_def)

lemma max_ts_both:
  assumes "st \<noteq> []" "au \<noteq> []"
  shows "py_max (series_max (map s_ts st)) (series_max (map a_ts au))
           = Ts (Max (set (map s_ts st) \<union> set (map a_ts au)))"
proof -
  have u: "Max (set (map s_ts st) \<union> set (map a_ts au))
          = max (Max (set (map s_ts st))) (Max (set (map a_ts au)))"
    using assms by (intro Max_Un) simp_all
  have "series_max (map s_ts st) = Ts (Max (set (map s_ts st)))"
    using assms(1) by (intro series_max_nonempty) simp
  moreover have "series_max (map a_ts au) = Ts (Max (set (map a_ts au)))"
    using assms(2) by (intro series_max_nonempty) simp
  ultimately show ?thesis
    by (simp only: py_max_Ts u)
qed

lemma apply_window_cases:
  "apply_window c (st, au, org) = (st, au, org) \<or>
   (\<exists>b. apply_window c (st, au, org) =
      (filter (\<lambda>r. ge_ts (s_ts r) b) st, filter (\<lambda>r. ge_ts (a_ts r) b) au,
       filter (\<lambda>r. ge_ts (o_ts r) b) org))"
  by (auto simp: apply_window_def Let_def split: option.splits)

section \<open>The properties\<close>

text \<open>
  C1 (the program at a failing input). The status source has one row at 13:45 and the
  auth source one row of code \<^verbatim>\<open>00\<close> at 13:46, a timestamp with no status row. The claim
  expects an organized row at 13:46; \<^verbatim>\<open>load_data\<close> raises the parser error of its first
  statement and returns no organized table.
\<close>

theorem auth_only_timestamp_load_raises:
  "load_data db
     [(''transactions.csv'', [(''2025-07-12 13:45:00'', ''approved'', ''10'')]),
      (''transactions_auth_codes.csv'', [(''2025-07-12 13:46:00'', ''00'', ''9'')])]
     ''transactions.csv'' ''transactions_auth_codes.csv'' = Inl ParserException"
  by (rule load_data_raises)

text \<open>
  C2 (the program at a failing input). Approved 10 and denied 2 at one timestamp: the
  claim expects organized rows whose six columns sum to 12; \<^verbatim>\<open>load_data\<close> raises the parser
  error and returns no organized table.
\<close>

theorem status_sums_load_raises:
  "load_data db
     [(''transactions.csv'', [(''2025-07-12 13:45:00'', ''approved'', ''10''), (''2025-07-12 13:45:00'', ''denied'', ''2'')]),
      (''transactions_auth_codes.csv'', [(''2025-07-12 13:45:00'', ''00'', ''9'')])]
     ''transactions.csv'' ''transactions_auth_codes.csv'' = Inl ParserException"
  by (rule load_data_raises)

text \<open>
  C3 (the program at a failing input). Two auth rows of code \<^verbatim>\<open>00\<close> at the timestamp of a
  status row: the claim expects an organized row with \<^verbatim>\<open>auth_00_count\<close> 12;
  \<^verbatim>\<open>load_data\<close> raises the parser error and returns no organized table.
\<close>

theorem auth_00_count_load_raises:
  "load_data db
     [(''transactions.csv'', [(''2025-07-12 13:45:00'', ''approved'', ''10'')]),
      (''transactions_auth_codes.csv'', [(''2025-07-12 13:45:00'', ''00'', ''5''), (''2025-07-12 13:45:00'', ''00'', ''7'')])]
     ''transactions.csv'' ''transactions_auth_codes.csv'' = Inl ParserException"
  by (rule load_data_raises)


text \<open>
  C6. For two non-empty source tables and a bounded window of duration \<open>d\<close>, each of the
  three tables is restricted to the rows whose timestamp is at least \<open>max_ts - d\<close>, where
  \<open>max_ts\<close> is the greatest timestamp of the two source tables: the bound is inclusive and
  there is no upper bound.
\<close>

theorem window_filter_bounds:
  assumes "st \<noteq> []" and "au \<noteq> []"
    and "(choice, d) \<in> {(''15 minutes'', 900000000), (''1 hour'', 3600000000),
                          (''6 hours'', 21600000000)}"
  shows "apply_window choice (st, au, org) =
           (filter (\<lambda>r. Max (set (map s_ts st) \<union> set (map a_ts au)) - d \<le> s_ts r) st,
            filter (\<lambda>r. Max (set (map s_ts st) \<union> set (map a_ts au)) - d \<le> a_ts r) au,
            filter (\<lambda>r. Max (set (map s_ts st) \<union> set (map a_ts au)) - d \<le> o_ts r) org)"
proof -
  have s: "start_ts choice (Ts m) = Some (Ts (m - d))" for m
    using assms(3) by (auto simp: start_ts_def)
  show ?thesis
    unfolding apply_window_def
    by (simp add: max_ts_both [OF assms(1,2)] s del: set_map)
qed

text \<open>
  C6, at a concrete input: \<open>max_ts\<close> is 1000000000 (from the auth table), the window is 15
  minutes; the status row at exactly 100000000 is kept and the row one microsecond earlier is
  dropped.
\<close>

theorem window_filter_bounds_witness:
  "apply_window ''15 minutes''
     ([\<lparr>s_ts = 99999999, s_status = ''approved'', s_count = 1\<rparr>,
       \<lparr>s_ts = 100000000, s_status = ''approved'', s_count = 2\<rparr>,
       \<lparr>s_ts = 400000000, s_status = ''denied'', s_count = 3\<rparr>],
      [\<lparr>a_ts = 0, a_auth_code = ''00'', a_count = 4\<rparr>,
       \<lparr>a_ts = 1000000000, a_auth_code = ''00'', a_count = 5\<rparr>],
      []) =
     ([\<lparr>s_ts = 100000000, s_status = ''approved'', s_count = 2\<rparr>,
       \<lparr>s_ts = 400000000, s_status = ''denied'', s_count = 3\<rparr>],
      [\<lparr>a_ts = 1000000000, a_auth_code = ''00'', a_count = 5\<rparr>],
      [])"
  using window_filter_bounds [of
      "[\<lparr>s_ts = 99999999, s_status = ''approved'', s_count = 1\<rparr>,
       \<lparr>s_ts = 100000000, s_status = ''approved'', s_count = 2\<rparr>,
       \<lparr>s_ts = 400000000, s_status = ''denied'', s_count = 3\<rparr>]"
      "[\<lparr>a_ts = 0, a_auth_code = ''00'', a_count = 4\<rparr>,
       \<lparr>a_ts = 1000000000, a_auth_code = ''00'', a_count = 5\<rparr>]"
      "''15 minutes''" 900000000 "[]"]
  by simp

text \<open>
  C7 (the program at a failing input). Both files exist, the status source has no data
  row and the auth source has one. The claim expects the no-data state; the run ends with
  the parser error raised inside \<^verbatim>\<open>load_data\<close>, before the guard on empty tables is
  reached.
\<close>

theorem empty_status_source_raises:
  "dashboard db rnd
     [(''transactions.csv'', []),
      (''transactions_auth_codes.csv'', [(''2025-07-12 13:45:00'', ''00'', ''9'')])]
     ''transactions.csv'' ''transactions_auth_codes.csv'' window_choice = Raised ParserException"
  by (simp add: dashboard_raises os_path_exists_def to_duckdb_path_def)

text \<open>
  C7, with everything fixed: both files exist, and even with an engine that would return
  the empty status table and the one auth row, the run ends in the parser error.
\<close>

theorem empty_status_source_raises_witness:
  "os_path_exists
     [(''transactions.csv'', []),
      (''transactions_auth_codes.csv'', [(''2025-07-12 13:45:00'', ''00'', ''9'')])]
     ''transactions.csv'' \<and>
   os_path_exists
     [(''transactions.csv'', []),
      (''transactions_auth_codes.csv'', [(''2025-07-12 13:45:00'', ''00'', ''9'')])]
     ''transactions_auth_codes.csv'' \<and>
   dashboard
     \<lparr> run_status = (\<lambda>f. Inr []),
       run_auth = (\<lambda>f. Inr [\<lparr>a_ts = 0, a_auth_code = ''00'', a_count = 9\<rparr>]),
       run_organized = (\<lambda>f g. Inr []) \<rparr>
     id
     [(''transactions.csv'', []),
      (''transactions_auth_codes.csv'', [(''2025-07-12 13:45:00'', ''00'', ''9'')])]
     ''transactions.csv'' ''transactions_auth_codes.csv'' ''1 hour'' = Raised ParserException"
  using empty_status_source_raises [of
     "\<lparr> run_status = (\<lambda>f. Inr []),
       run_auth = (\<lambda>f. Inr [\<lparr>a_ts = 0, a_auth_code = ''00'', a_count = 9\<rparr>]),
       run_organized = (\<lambda>f g. Inr []) \<rparr>" id "''1 hour''"]
  by (simp add: os_path_exists_def to_duckdb_path_def)


text \<open>
  C9. For every status table, the approval-rate KPI is computed without an error and is
  never NaN. It is 0.0 when the total is 0; otherwise it is the quotient
  \<open>approved_total / total_tx\<close> as a percentage (the script shows it with a \<^verbatim>\<open>%\<close> sign): the
  rounded quotient times 100, rounded. The hypothesis on \<open>rnd\<close> is that rounding does not
  leave the range of the doubles.
\<close>

theorem approval_rate_kpi:
  assumes "\<forall>x. \<bar>x\<bar> \<le> max_float \<longrightarrow> \<bar>rnd x\<bar> \<le> max_float"
  shows "approval_rate rnd (approved_total st) (total_tx st) =
           Inr (if total_tx st = 0 then Finite 0
                else to_float rnd
                       (rnd (real_of_int (approved_total st) / real_of_int (total_tx st)) * 100))
         \<and> approval_rate rnd (approved_total st) (total_tx st) \<noteq> Inr NaN"
proof (cases "total_tx st = 0")
  case True
  then show ?thesis by (simp add: approval_rate_def)
next
  case False
  let ?q = "real_of_int (approved_total st) / real_of_int (total_tx st)"
  have "\<bar>?q\<bar> \<le> max_float"
    using wrap64_range [of "sum_list (map s_count (filter (\<lambda>r. s_status r = ''approved'') st))"]
      False
    by (intro quotient_bound) (simp_all add: approved_total_def)
  then have "\<bar>rnd ?q\<bar> \<le> max_float"
    using assms by blast
  then have "to_float rnd ?q = Finite (rnd ?q)"
    by (rule to_float_in_range)
  then have "py_truediv rnd (approved_total st) (total_tx st) = Inr (Finite (rnd ?q))"
    using False by (simp add: py_truediv_def)
  then have "approval_rate rnd (approved_total st) (total_tx st)
               = Inr (to_float rnd (rnd ?q * 100))"
    using False by (simp add: approval_rate_def)
  then show ?thesis
    using False by (simp add: to_float_not_NaN)
qed

text \<open>
  C9, at concrete inputs, with exact rounding: 10 approved of 12 give 250/3 (83.33 per
  cent), and the empty table gives 0.
\<close>

theorem approval_rate_kpi_witness:
  "approval_rate id
     (approved_total [\<lparr>s_ts = 0, s_status = ''approved'', s_count = 10\<rparr>,
                      \<lparr>s_ts = 0, s_status = ''denied'', s_count = 2\<rparr>])
     (total_tx [\<lparr>s_ts = 0, s_status = ''approved'', s_count = 10\<rparr>,
                \<lparr>s_ts = 0, s_status = ''denied'', s_count = 2\<rparr>]) = Inr (Finite (250 / 3)) \<and>
   approval_rate id (approved_total []) (total_tx []) = Inr (Finite 0)"
proof -
  have h: "\<forall>x. \<bar>x\<bar> \<le> max_float \<longrightarrow> \<bar>id x\<bar> \<le> max_float"
    by simp
  show ?thesis
    using
      approval_rate_kpi [OF h, of "[\<lparr>s_ts = 0, s_status = ''approved'', s_count = 10\<rparr>,
                                    \<lparr>s_ts = 0, s_status = ''denied'', s_count = 2\<rparr>]"]
      approval_rate_kpi [OF h, of "[]"]
    by (simp add: total_tx_def approved_total_def wrap64_def to_float_def max_float_def id_def)
qed

text \<open>
  C10. The window only removes whole rows: each of the three tables it returns is a
  subsequence of the table it was given (the kept rows are the given rows, unchanged and in
  their order), and the selector \<^verbatim>\<open>All\<close> returns the three tables as they are.
\<close>

theorem window_only_removes_rows:
  "subseq (fst (apply_window c (st, au, org))) st \<and>
   subseq (fst (snd (apply_window c (st, au, org)))) au \<and>
   subseq (snd (snd (apply_window c (st, au, org)))) org \<and>
   apply_window ''All'' (st, au, org) = (st, au, org)"
proof -
  have "apply_window ''All'' (st, au, org) = (st, au, org)"
    by (simp add: apply_window_def start_ts_def)
  moreover have "subseq (fst (apply_window c (st, au, org))) st"
    using apply_window_cases [of c st au org] by (auto simp: subseq_filter_left)
  moreover have "subseq (fst (snd (apply_window c (st, au, org)))) au"
    using apply_window_cases [of c st au org] by (auto simp: subseq_filter_left)
  moreover have "subseq (snd (snd (apply_window c (st, au, org)))) org"
    using apply_window_cases [of c st au org] by (auto simp: subseq_filter_left)
  ultimately show ?thesis by simp
qed

text \<open>
  C10, at a concrete input.
\<close>

theorem window_only_removes_rows_witness:
  "subseq (fst (apply_window ''1 hour''
       ([\<lparr>s_ts = 0, s_status = ''approved'', s_count = 1\<rparr>],
        [\<lparr>a_ts = 3600000001, a_auth_code = ''00'', a_count = 5\<rparr>], [])))
     [\<lparr>s_ts = 0, s_status = ''approved'', s_count = 1\<rparr>] \<and>
   apply_window ''All''
       ([\<lparr>s_ts = 0, s_status = ''approved'', s_count = 1\<rparr>],
        [\<lparr>a_ts = 3600000001, a_auth_code = ''00'', a_count = 5\<rparr>], []) =
       ([\<lparr>s_ts = 0, s_status = ''approved'', s_count = 1\<rparr>],
        [\<lparr>a_ts = 3600000001, a_auth_code = ''00'', a_count = 5\<rparr>], [])"
  using window_only_removes_rows [of "''1 hour''"
      "[\<lparr>s_ts = 0, s_status = ''approved'', s_count = 1\<rparr>]"
      "[\<lparr>a_ts = 3600000001, a_auth_code = ''00'', a_count = 5\<rparr>]" "[]"]
  by simp

end
